theory Spec2Isabelle
  imports Complex_Main
begin

section \<open>WAV-to-IMG: values and array primitives\<close>

text \<open>
  The program is one Python file, \<^verbatim>\<open>WAV-to-IMG.py\<close>. Its numeric data are numpy arrays
  of float64. A finite float64 is modelled as a real number (no rounding); the two
  non-finite results the code can produce from finite data, \<^verbatim>\<open>log10(0) = -inf\<close> and
  \<^verbatim>\<open>log10(x) = nan\<close> for negative \<open>x\<close>, are values of their own. A one-dimensional array
  is a list, a two-dimensional array is the list of its rows.
\<close>

datatype npfloat = Finite real | NegInf | NaN

text \<open>\<^verbatim>\<open>np.log10\<close> on a finite value.\<close>

definition np_log10 :: "real \<Rightarrow> npfloat" where
  "np_log10 x = (if 0 < x then Finite (log 10 x) else if x = 0 then NegInf else NaN)"

text \<open>\<^verbatim>\<open>10 * v\<close>.\<close>

fun times10 :: "npfloat \<Rightarrow> npfloat" where
  "times10 (Finite x) = Finite (10 * x)"
| "times10 NegInf = NegInf"
| "times10 NaN = NaN"

text \<open>\<^verbatim>\<open>v > t\<close>: every comparison with nan is false, and so is \<^verbatim>\<open>-inf > t\<close>.\<close>

fun np_greater :: "npfloat \<Rightarrow> real \<Rightarrow> bool" where
  "np_greater (Finite x) t = (t < x)"
| "np_greater NegInf t = False"
| "np_greater NaN t = False"

fun is_finite :: "npfloat \<Rightarrow> bool" where
  "is_finite (Finite x) = True"
| "is_finite NegInf = False"
| "is_finite NaN = False"

text \<open>The exceptions the code can meet.\<close>

datatype exn = IOError | ValueError | TypeError | IndexError | EOFError | OverflowError

text \<open>Maximum and minimum of a non-empty list (the callers test for emptiness).\<close>

definition list_max :: "'a::linorder list \<Rightarrow> 'a" where
  "list_max xs = fold max (tl xs) (hd xs)"

definition list_min :: "'a::linorder list \<Rightarrow> 'a" where
  "list_min xs = fold min (tl xs) (hd xs)"

text \<open>
  \<^verbatim>\<open>np.max(Pxx, axis=1)\<close>: the maximum of every row. Reducing rows that have no column
  raises ValueError (\<open>None\<close>).
\<close>

definition np_max_axis1 :: "real list list \<Rightarrow> real list option" where
  "np_max_axis1 P = (if [] \<in> set P then None else Some (map list_max P))"

text \<open>
  \<^verbatim>\<open>np.argmax\<close>: the index of the first occurrence of the maximum; ValueError on an
  empty array. On a boolean array \<open>False < True\<close>, so this is the index of the first
  \<open>True\<close>, and 0 when there is none.
\<close>

definition np_argmax :: "'a::linorder list \<Rightarrow> nat option" where
  "np_argmax xs =
     (if xs = [] then None
      else Some (length (takeWhile (\<lambda>x. x \<noteq> list_max xs) xs)))"

text \<open>\<^verbatim>\<open>a[i]\<close> on a one-dimensional array: a negative index counts from the end,
  an index out of range raises IndexError (\<open>None\<close>).\<close>

definition np_index :: "'a list \<Rightarrow> int \<Rightarrow> 'a option" where
  "np_index xs i =
     (let n = int (length xs); j = (if i < 0 then i + n else i)
      in if 0 \<le> j \<and> j < n then Some (xs ! nat j) else None)"

section \<open>detect_valid_frequency_range\<close>

definition threshold_db :: real where
  "threshold_db = 20"

definition epsilon :: real where
  "epsilon = 1 / 10 ^ 10"

definition max_db_per_freq :: "real list \<Rightarrow> npfloat list" where
  "max_db_per_freq maxs = map (\<lambda>m. times10 (np_log10 (m + epsilon))) maxs"

text \<open>
  The function's return value. Every exception raised in the body is caught by
  \<^verbatim>\<open>except Exception\<close>, and the function then returns \<^verbatim>\<open>None\<close>.
\<close>

definition detect_valid_frequency_range ::
    "real list \<Rightarrow> real list list \<Rightarrow> (real \<times> real) option" where
  "detect_valid_frequency_range freqs_array Pxx =
     (case np_max_axis1 Pxx of
        None \<Rightarrow> None
      | Some maxs \<Rightarrow>
          (let above = map (\<lambda>d. np_greater d threshold_db) (max_db_per_freq maxs)
           in case np_argmax above of
                None \<Rightarrow> None
              | Some min_freq_index \<Rightarrow>
                  (case np_index freqs_array (int min_freq_index) of
                     None \<Rightarrow> None
                   | Some min_freq \<Rightarrow>
                       (case np_argmax (rev above) of
                          None \<Rightarrow> None
                        | Some k \<Rightarrow>
                            (case np_index freqs_array
                                    (int (length freqs_array) - int k - 1) of
                               None \<Rightarrow> None
                             | Some max_freq \<Rightarrow> Some (min_freq, max_freq))))))"

text \<open>
  The function with its effects: it reads the caller's two arrays and prints one line.
  The state holds the arrays (Python passes them by reference) and the console.
\<close>

datatype message = Valid_range real real | Detect_error

record detect_state =
  freqs_array :: "real list"
  Pxx :: "real list list"
  console :: "message list"

definition detect_run :: "detect_state \<Rightarrow> (real \<times> real) option \<times> detect_state" where
  "detect_run s =
     (case detect_valid_frequency_range (freqs_array s) (Pxx s) of
        Some (min_freq, max_freq) \<Rightarrow>
          (Some (min_freq, max_freq),
           s\<lparr>console := console s @ [Valid_range min_freq max_freq]\<rparr>)
      | None \<Rightarrow> (None, s\<lparr>console := console s @ [Detect_error]\<rparr>))"

section \<open>data_acquisition\<close>

text \<open>
  \<^verbatim>\<open>scipy.io.wavfile.read\<close> is a library function and a parameter of the model: it
  raises, or returns the sample rate and the data, a one-dimensional array for a
  one-channel file and a two-dimensional array (one row per frame, one column per
  channel) otherwise.
\<close>

datatype 'a wav_data = Mono "'a list" | Multi "'a list list"

datatype notice = Kept_one_channel

text \<open>
  The three ways the function returns: \<^verbatim>\<open>sample_rate, linear_array\<close> (with what it
  printed), \<^verbatim>\<open>None, None\<close> after an IOError, and \<^verbatim>\<open>-1\<close> after any other exception.
  \<^verbatim>\<open>linear_array[:, 0]\<close> raises IndexError when the array has no column.
\<close>

datatype 'a acquired = Acquired int "'a list" "notice list" | None_None | Minus_one

definition data_acquisition ::
    "(string \<Rightarrow> exn + int \<times> 'a wav_data) \<Rightarrow> string \<Rightarrow> 'a acquired" where
  "data_acquisition read filename =
     (case read filename of
        Inl e \<Rightarrow> (if e = IOError then None_None else Minus_one)
      | Inr (sample_rate, Mono linear_array) \<Rightarrow> Acquired sample_rate linear_array []
      | Inr (sample_rate, Multi frames) \<Rightarrow>
          (if [] \<in> set frames then Minus_one
           else Acquired sample_rate (map (\<lambda>frame. frame ! 0) frames) [Kept_one_channel]))"

section \<open>plot_fft_freq_chart\<close>

text \<open>
  An instant (\<^verbatim>\<open>datetime\<close>) is a number of microseconds. \<^verbatim>\<open>timedelta(seconds=s)\<close>
  rounds \<open>s\<close> to whole microseconds, halves to the even neighbour. Instants and
  durations are taken to stay inside the range of \<^verbatim>\<open>datetime\<close> and \<^verbatim>\<open>timedelta\<close>.
\<close>

definition round_half_even :: "real \<Rightarrow> int" where
  "round_half_even x =
     (let f = \<lfloor>x\<rfloor>; d = x - of_int f
      in if d < 1 / 2 then f else if 1 / 2 < d then f + 1
         else if even f then f else f + 1)"

definition timedelta_seconds :: "real \<Rightarrow> int" where
  "timedelta_seconds s = round_half_even (s * 1000000)"

text \<open>
  \<^verbatim>\<open>float(freq_str[:-2])\<close>. The global \<^verbatim>\<open>freq_str\<close> is the group \<^verbatim>\<open>(?P<freq>\d+Hz)\<close> of
  \<^verbatim>\<open>name_resolution\<close>, so the argument of \<^verbatim>\<open>float\<close> is a string of digits; on any other
  string the model raises ValueError (\<open>None\<close>), as Python does on the empty string.
\<close>

definition is_digit :: "char \<Rightarrow> bool" where
  "is_digit c = (48 \<le> (of_char c :: nat) \<and> (of_char c :: nat) \<le> 57)"

definition py_float :: "string \<Rightarrow> real option" where
  "py_float s =
     (if s \<noteq> [] \<and> list_all is_digit s
      then Some (real (foldl (\<lambda>a c. 10 * a + (of_char c - 48)) 0 s))
      else None)"

definition drop_last2 :: "string \<Rightarrow> string" where
  "drop_last2 s = take (length s - 2) s"

text \<open>Indexing with a boolean mask of the same length.\<close>

definition select_rows :: "bool list \<Rightarrow> 'a list \<Rightarrow> 'a list" where
  "select_rows display_mask xs = map snd (filter fst (zip display_mask xs))"

text \<open>
  What the function hands to \<^verbatim>\<open>plt.imshow\<close> and the axis labels: the amplitude grid,
  the two coordinate arrays it has built, the \<^verbatim>\<open>extent\<close> taken from them, the start time
  of the x label and the base frequency of the y label.
\<close>

record view =
  time_array :: "int list"
  freqs_array_display :: "real list"
  log_spec :: "npfloat list list"
  extent :: "int \<times> int \<times> real \<times> real"
  xlabel :: int
  ylabel :: real

text \<open>
  \<^verbatim>\<open>signal.spectrogram\<close> is a library function and a parameter of the model: it raises,
  or returns \<^verbatim>\<open>freqs_array, time_array, Pxx\<close>. The body of the \<^verbatim>\<open>try\<close> follows; \<open>Inl\<close> is
  the exception it raises. Unpacking the \<^verbatim>\<open>None\<close> of a failed detection raises TypeError,
  a boolean mask of the wrong length IndexError, \<^verbatim>\<open>min()\<close> of an empty array ValueError.
  The module-level \<^verbatim>\<open>freq_str\<close> is an argument of the model.
\<close>

definition plot_body ::
    "('a list \<Rightarrow> real \<Rightarrow> int \<Rightarrow> int \<Rightarrow> exn + real list \<times> real list \<times> real list list)
     \<Rightarrow> string \<Rightarrow> int \<Rightarrow> int \<Rightarrow> real \<Rightarrow> 'a list \<Rightarrow> int \<Rightarrow> real \<Rightarrow> exn + view" where
  "plot_body spectrogram freq_str NFFT noverlap sample_rate linear_array utc_time base_freq_mhz =
     (case spectrogram linear_array sample_rate NFFT noverlap of
        Inl e \<Rightarrow> Inl e
      | Inr (freqs, rel_times, P) \<Rightarrow>
          (case detect_valid_frequency_range freqs P of
             None \<Rightarrow> Inl TypeError
           | Some (min_freq, max_freq) \<Rightarrow>
               (let display_mask = map (\<lambda>f. min_freq \<le> f \<and> f \<le> max_freq) freqs;
                    freqs_display = select_rows display_mask freqs
                in if length P \<noteq> length display_mask then Inl IndexError
                   else
                    (let Pxx_display = select_rows display_mask P
                     in if rel_times = [] then Inl ValueError
                        else
                         (let start_time = utc_time + timedelta_seconds (list_min rel_times);
                              abs_times = start_time #
                                 map (\<lambda>sec. start_time + timedelta_seconds sec) rel_times
                          in case py_float (drop_last2 freq_str) of
                               None \<Rightarrow> Inl ValueError
                             | Some base_freq_hz \<Rightarrow>
                                 (let freqs' = map (\<lambda>f. (base_freq_hz + f) / 1000000)
                                                  freqs_display;
                                      spec = map (map (\<lambda>p. times10 (np_log10 p)))
                                                  Pxx_display
                                  in if freqs' = [] then Inl ValueError
                                     else Inr \<lparr>time_array = abs_times,
                                               freqs_array_display = freqs',
                                               log_spec = spec,
                                               extent = (list_min abs_times, list_max abs_times,
                                                         list_min freqs', list_max freqs'),
                                               xlabel = start_time,
                                               ylabel = base_freq_mhz\<rparr>))))))"

text \<open>
  The \<^verbatim>\<open>except\<close> clauses: IOError and ValueError are caught and the function returns
  \<^verbatim>\<open>-1\<close>; any other exception leaves the function.
\<close>

datatype outcome = Shown view | Returned_minus_one | Propagated exn

definition plot_fft_freq_chart ::
    "('a list \<Rightarrow> real \<Rightarrow> int \<Rightarrow> int \<Rightarrow> exn + real list \<times> real list \<times> real list list)
     \<Rightarrow> string \<Rightarrow> int \<Rightarrow> int \<Rightarrow> real \<Rightarrow> 'a list \<Rightarrow> int \<Rightarrow> real \<Rightarrow> outcome" where
  "plot_fft_freq_chart spectrogram freq_str NFFT noverlap sample_rate linear_array utc_time
       base_freq_mhz =
     (case plot_body spectrogram freq_str NFFT noverlap sample_rate linear_array utc_time
             base_freq_mhz of
        Inr v \<Rightarrow> Shown v
      | Inl e \<Rightarrow> (if e = IOError \<or> e = ValueError then Returned_minus_one else Propagated e))"

section \<open>The preset selection loop\<close>

text \<open>
  The loop reads lines from the console; the model takes the lines still to come as a
  list, and \<^verbatim>\<open>input()\<close> on an exhausted console raises EOFError. \<^verbatim>\<open>int(float(line))\<close> is the
  parameter \<open>num\<close>: a ValueError makes the inner loop ask again, any other exception
  leaves the program.
\<close>

fun custom_loop :: "(string \<Rightarrow> exn + int) \<Rightarrow> string list \<Rightarrow> exn + int \<times> int" where
  "custom_loop num [] = Inl EOFError"
| "custom_loop num [a] =
     (case num a of
        Inl e \<Rightarrow> (if e = ValueError then Inl EOFError else Inl e)
      | Inr NFFT \<Rightarrow> Inl EOFError)"
| "custom_loop num (a # b # rest) =
     (case num a of
        Inl e \<Rightarrow> (if e = ValueError then custom_loop num (b # rest) else Inl e)
      | Inr NFFT \<Rightarrow>
          (case num b of
             Inl e \<Rightarrow> (if e = ValueError then custom_loop num rest else Inl e)
           | Inr noverlap \<Rightarrow>
               (if NFFT \<ge> noverlap then Inr (NFFT, noverlap)
                else custom_loop num rest)))"

fun select_parameters :: "(string \<Rightarrow> exn + int) \<Rightarrow> string list \<Rightarrow> exn + int \<times> int" where
  "select_parameters num [] = Inl EOFError"
| "select_parameters num (choice # rest) =
     (if choice = ''0'' then custom_loop num rest
      else if choice = ''1'' then Inr (32786, 30000)
      else if choice = ''2'' then Inr (16384, 15000)
      else if choice = ''3'' then Inr (16384, 12000)
      else select_parameters num rest)"

section \<open>The spectrogram engine of the specification\<close>

text \<open>
  Modelled from the spec: the segmentation and the frequency axis of the spectrogram
  engine. The program calls \<^verbatim>\<open>scipy.signal.spectrogram\<close> (line 79), whose code is not
  in src/. The spec (4.2) has the engine slide a window of length \<open>N\<close> over the samples
  with step \<open>N - V\<close>, one time column per window fitted, and gives \<open>frequencies\<close> as
  the one-sided spectrum: of the bins \<open>k * sample_rate / N\<close> of a transform of
  length \<open>N\<close>, those in \<open>[0, sample_rate / 2]\<close>.
\<close>

function windows :: "nat \<Rightarrow> nat \<Rightarrow> 'a list \<Rightarrow> 'a list list" where
  "windows N V samples =
     (if V < N \<and> N \<le> length samples
      then take N samples # windows N V (drop (N - V) samples)
      else [])"
  by pat_completeness auto
termination
  by (relation "measure (\<lambda>(N, V, samples). length samples)") auto

definition frequencies :: "nat \<Rightarrow> real \<Rightarrow> real list" where
  "frequencies N sample_rate =
     map (\<lambda>k. real k * sample_rate / real N)
       (filter (\<lambda>k. real k * sample_rate / real N \<le> sample_rate / 2) [0..<N])"

section \<open>The detection rule of the specification and the observed frequency axis\<close>

text \<open>
  The spec (4.3 a): a frequency row counts as signal when its maximum power over all
  time columns, converted to decibels as \<open>10 * log10 (max_power + \<epsilon>)\<close>, exceeds the
  detection threshold.
\<close>

definition row_exceeds :: "real list \<Rightarrow> bool" where
  "row_exceeds row = (threshold_db < 10 * log 10 (Max (set row) + epsilon))"

text \<open>The frequency axis an invocation of the plotting function has built, if it got that far.\<close>

definition frequency_axis :: "outcome \<Rightarrow> real list option" where
  "frequency_axis r = (case r of Shown v \<Rightarrow> Some (freqs_array_display v) | _ \<Rightarrow> None)"

section \<open>Facts about the primitives\<close>

lemma db_gt_iff: "0 < x \<Longrightarrow> (20 < 10 * log 10 x) = (100 < x)"
proof -
  assume x: "0 < x"
  have "(20 < 10 * log 10 x) = (2 < log 10 x)" by auto
  also have "\<dots> = (10 powr 2 < x)" using x by (simp add: less_log_iff)
  also have "\<dots> = (100 < x)" by simp
  finally show ?thesis .
qed

lemma list_max_eq_Max: "xs \<noteq> [] \<Longrightarrow> list_max xs = Max (set xs)"
proof (cases xs)
  case Nil
  assume "xs \<noteq> []" with Nil show ?thesis by simp
next
  case (Cons a as)
  have "Max (set (a # as)) = fold max as a" by (rule Max.set_eq_fold)
  with Cons show ?thesis by (simp add: list_max_def)
qed

lemma list_min_eq_Min: "xs \<noteq> [] \<Longrightarrow> list_min xs = Min (set xs)"
proof (cases xs)
  case Nil
  assume "xs \<noteq> []" with Nil show ?thesis by simp
next
  case (Cons a as)
  have "Min (set (a # as)) = fold min as a" by (rule Min.set_eq_fold)
  with Cons show ?thesis by (simp add: list_min_def)
qed

lemma list_max_bool: "bs \<noteq> [] \<Longrightarrow> list_max bs = (True \<in> set bs)"
proof -
  assume ne: "bs \<noteq> []"
  then have m: "list_max bs = Max (set bs)" by (rule list_max_eq_Max)
  have fin: "finite (set bs)" "set bs \<noteq> {}" using ne by simp_all
  show ?thesis
  proof (cases "True \<in> set bs")
    case True
    then have "True \<le> Max (set bs)" using fin by (intro Max_ge) simp_all
    with True m show ?thesis by simp
  next
    case False
    have "Max (set bs) \<in> set bs" using fin by (rule Max_in)
    with False m show ?thesis by metis
  qed
qed

lemma length_takeWhile_lt:
  "\<exists>x\<in>set xs. \<not> P x \<Longrightarrow> length (takeWhile P xs) < length xs"
  by (induction xs) auto

lemma np_argmax_first:
  assumes "True \<in> set bs"
  shows "\<exists>i. np_argmax bs = Some i \<and> i < length bs \<and> bs ! i \<and> (\<forall>k<i. \<not> bs ! k)"
proof -
  from assms have ne: "bs \<noteq> []" by auto
  let ?i = "length (takeWhile (\<lambda>x. x \<noteq> True) bs)"
  have a: "np_argmax bs = Some ?i"
    using ne assms by (simp add: np_argmax_def list_max_bool)
  have lt: "?i < length bs"
    using assms by (intro length_takeWhile_lt) auto
  have at: "bs ! ?i" using nth_length_takeWhile [OF lt] by simp
  have before: "\<forall>k<?i. \<not> bs ! k"
  proof (intro allI impI)
    fix k assume k: "k < ?i"
    then have "takeWhile (\<lambda>x. x \<noteq> True) bs ! k = bs ! k" by (rule takeWhile_nth)
    moreover have "takeWhile (\<lambda>x. x \<noteq> True) bs ! k \<in> set (takeWhile (\<lambda>x. x \<noteq> True) bs)"
      using k by simp
    ultimately show "\<not> bs ! k" by (metis (mono_tags, lifting) set_takeWhileD)
  qed
  from a lt at before show ?thesis by blast
qed

lemma np_argmax_none:
  assumes "bs \<noteq> []" "True \<notin> set bs"
  shows "np_argmax bs = Some 0"
proof -
  have "list_max bs = False" using assms by (simp add: list_max_bool)
  moreover have "hd bs = False" using assms by (cases bs) auto
  ultimately show ?thesis using assms by (cases bs) (simp_all add: np_argmax_def)
qed

lemma np_argmax_last:
  assumes "True \<in> set bs"
  shows "\<exists>k. np_argmax (rev bs) = Some k \<and> k < length bs \<and> bs ! (length bs - 1 - k)
            \<and> (\<forall>m. length bs - 1 - k < m \<and> m < length bs \<longrightarrow> \<not> bs ! m)"
proof -
  from assms have "True \<in> set (rev bs)" by simp
  from np_argmax_first [OF this] obtain k where
    k: "np_argmax (rev bs) = Some k" "k < length bs" "rev bs ! k" "\<forall>m<k. \<not> rev bs ! m"
    by auto
  have at: "bs ! (length bs - 1 - k)" using k(2,3) by (simp add: rev_nth)
  have after: "\<forall>m. length bs - 1 - k < m \<and> m < length bs \<longrightarrow> \<not> bs ! m"
  proof (intro allI impI)
    fix m assume m: "length bs - 1 - k < m \<and> m < length bs"
    let ?m' = "length bs - Suc m"
    have "?m' < k" using m k(2) by arith
    then have "\<not> rev bs ! ?m'" using k(4) by blast
    moreover have "rev bs ! ?m' = bs ! m"
    proof -
      have "?m' < length bs" using m by arith
      then have "rev bs ! ?m' = bs ! (length bs - Suc ?m')" by (rule rev_nth)
      moreover have "length bs - Suc ?m' = m" using m by arith
      ultimately show ?thesis by simp
    qed
    ultimately show "\<not> bs ! m" by simp
  qed
  from k(1,2) at after show ?thesis by blast
qed

lemma np_index_nat: "i < length xs \<Longrightarrow> np_index xs (int i) = Some (xs ! i)"
  by (simp add: np_index_def)

lemma np_index_from_end:
  "k < length xs \<Longrightarrow> np_index xs (int (length xs) - int k - 1) = Some (xs ! (length xs - 1 - k))"
proof -
  assume k: "k < length xs"
  then have "int (length xs) - int k - 1 = int (length xs - 1 - k)" by arith
  moreover have "length xs - 1 - k < length xs" using k by arith
  ultimately show ?thesis using np_index_nat [of "length xs - 1 - k" xs] by simp
qed

lemma above_row:
  assumes "row \<noteq> []" "\<forall>p\<in>set row. 0 \<le> p"
  shows "np_greater (times10 (np_log10 (list_max row + epsilon))) threshold_db = row_exceeds row"
proof -
  have "Max (set row) \<in> set row" using assms(1) by (intro Max_in) simp_all
  then have "0 \<le> Max (set row)" using assms(2) by blast
  then have "0 < Max (set row) + epsilon" by (simp add: epsilon_def add_nonneg_pos)
  then show ?thesis using assms(1)
    by (simp add: np_log10_def row_exceeds_def list_max_eq_Max)
qed


lemma above_rows:
  assumes "[] \<notin> set P" "\<forall>row\<in>set P. \<forall>p\<in>set row. 0 \<le> p"
  shows "map (\<lambda>d. np_greater d threshold_db) (max_db_per_freq (map list_max P)) = map row_exceeds P"
proof -
  have "\<And>row. row \<in> set P \<Longrightarrow>
      np_greater (times10 (np_log10 (list_max row + epsilon))) threshold_db = row_exceeds row"
    using assms by (intro above_row) auto
  then show ?thesis by (simp add: max_db_per_freq_def)
qed

lemma detect_unfold:
  assumes "[] \<notin> set P" "\<forall>row\<in>set P. \<forall>p\<in>set row. 0 \<le> p"
    and "np_argmax (map row_exceeds P) = Some i" "np_index freqs (int i) = Some a"
    and "np_argmax (rev (map row_exceeds P)) = Some k"
    and "np_index freqs (int (length freqs) - int k - 1) = Some b"
  shows "detect_valid_frequency_range freqs P = Some (a, b)"
  using assms(3-6) above_rows [OF assms(1,2)] assms(1)
  by (simp add: detect_valid_frequency_range_def np_max_axis1_def)

lemma detect_without_signal:
  assumes len: "length freqs = length P"
    and rows: "P \<noteq> []"
    and cols: "[] \<notin> set P"
    and nonneg: "\<forall>row\<in>set P. \<forall>p\<in>set row. 0 \<le> p"
    and none: "\<forall>row\<in>set P. \<not> row_exceeds row"
  shows "detect_valid_frequency_range freqs P = Some (freqs ! 0, freqs ! (length freqs - 1))"
proof -
  let ?above = "map row_exceeds P"
  have ne: "?above \<noteq> []" "rev ?above \<noteq> []" using rows by simp_all
  have nt: "True \<notin> set ?above" "True \<notin> set (rev ?above)" using none by auto
  have a1: "np_argmax ?above = Some 0" by (rule np_argmax_none [OF ne(1) nt(1)])
  have a2: "np_argmax (rev ?above) = Some 0" by (rule np_argmax_none [OF ne(2) nt(2)])
  have pos: "0 < length freqs" using len rows by simp
  have i1: "np_index freqs (int 0) = Some (freqs ! 0)" using pos by (rule np_index_nat)
  have i2: "np_index freqs (int (length freqs) - int 0 - 1) = Some (freqs ! (length freqs - 1 - 0))"
    using pos by (rule np_index_from_end)
  show ?thesis using detect_unfold [OF cols nonneg a1 i1 a2 i2] by simp
qed

lemma row_exceeds_iff: "row \<noteq> [] \<Longrightarrow> \<forall>p\<in>set row. 0 \<le> p \<Longrightarrow> row_exceeds row = (100 < Max (set row) + epsilon)"
proof -
  assume a: "row \<noteq> []" "\<forall>p\<in>set row. 0 \<le> p"
  have "Max (set row) \<in> set row" using a(1) by (intro Max_in) simp_all
  then have "0 \<le> Max (set row)" using a(2) by blast
  then have "0 < Max (set row) + epsilon" by (simp add: epsilon_def add_nonneg_pos)
  then show ?thesis by (simp add: row_exceeds_def threshold_db_def db_gt_iff)
qed


section \<open>Range detection\<close>

text \<open>
  Claim C6. On a surface with as many rows as frequencies, at least one time column,
  non-negative powers and at least one row that exceeds the threshold, detection returns
  the frequency of the first row that exceeds it and the frequency of the last row that
  exceeds it: no row before the first and no row after the last exceeds the threshold.
  Whether a row exceeds it is decided on the row's maximum power, as
  \<open>10 * log10 (max_power + epsilon) > 20\<close>.
\<close>

theorem detect_first_and_last:
  assumes len: "length freqs = length P"
    and cols: "[] \<notin> set P"
    and nonneg: "\<forall>row\<in>set P. \<forall>p\<in>set row. 0 \<le> p"
    and some: "\<exists>row\<in>set P. row_exceeds row"
  shows "\<exists>i j. detect_valid_frequency_range freqs P = Some (freqs ! i, freqs ! j)
           \<and> i \<le> j \<and> j < length P
           \<and> row_exceeds (P ! i) \<and> (\<forall>k<i. \<not> row_exceeds (P ! k))
           \<and> row_exceeds (P ! j) \<and> (\<forall>k. j < k \<and> k < length P \<longrightarrow> \<not> row_exceeds (P ! k))"
proof -
  let ?above = "map row_exceeds P"
  have tr: "True \<in> set ?above" using some by force
  from np_argmax_first [OF tr] obtain i where
    i: "np_argmax ?above = Some i" "i < length P" "?above ! i" "\<forall>k<i. \<not> ?above ! k"
    by auto
  from np_argmax_last [OF tr] obtain k where
    k: "np_argmax (rev ?above) = Some k" "k < length P" "?above ! (length P - 1 - k)"
       "\<forall>m. length P - 1 - k < m \<and> m < length P \<longrightarrow> \<not> ?above ! m"
    by auto
  let ?j = "length P - 1 - k"
  have j: "?j < length P" using k(2) by arith
  have ia: "np_index freqs (int i) = Some (freqs ! i)"
    using i(2) len by (simp add: np_index_nat)
  have ja: "np_index freqs (int (length freqs) - int k - 1) = Some (freqs ! ?j)"
    using np_index_from_end [of k freqs] k(2) len by simp
  have d: "detect_valid_frequency_range freqs P = Some (freqs ! i, freqs ! ?j)"
    by (rule detect_unfold [OF cols nonneg i(1) ia k(1) ja])
  have ei: "row_exceeds (P ! i)" using i(2,3) by simp
  have bi: "\<forall>m<i. \<not> row_exceeds (P ! m)" using i(2,4) by auto
  have ej: "row_exceeds (P ! ?j)" using j k(3) by simp
  have aj: "\<forall>m. ?j < m \<and> m < length P \<longrightarrow> \<not> row_exceeds (P ! m)" using k(4) by auto
  have ij: "i \<le> ?j" using bi ej by (meson not_le)
  from d ij j ei bi ej aj show ?thesis by blast
qed

theorem detect_first_and_last_witness:
  "length [0, 1, 2, 3::real] = length [[0, 1], [1000, 2], [0, 200], [5, 5::real]]
   \<and> [] \<notin> set [[0, 1], [1000, 2], [0, 200], [5, 5::real]]
   \<and> row_exceeds [1000, 2]
   \<and> (\<exists>i j. detect_valid_frequency_range [0, 1, 2, 3] [[0, 1], [1000, 2], [0, 200], [5, 5]]
               = Some ([0, 1, 2, 3] ! i, [0, 1, 2, 3] ! j)
           \<and> i \<le> j \<and> j < length [[0, 1], [1000, 2], [0, 200], [5, 5::real]]
           \<and> row_exceeds ([[0, 1], [1000, 2], [0, 200], [5, 5]] ! i)
           \<and> (\<forall>k<i. \<not> row_exceeds ([[0, 1], [1000, 2], [0, 200], [5, 5]] ! k))
           \<and> row_exceeds ([[0, 1], [1000, 2], [0, 200], [5, 5]] ! j)
           \<and> (\<forall>k. j < k \<and> k < length [[0, 1], [1000, 2], [0, 200], [5, 5::real]]
                  \<longrightarrow> \<not> row_exceeds ([[0, 1], [1000, 2], [0, 200], [5, 5]] ! k)))"
proof -
  let ?P = "[[0, 1], [1000, 2], [0, 200], [5, 5::real]]"
  let ?f = "[0, 1, 2, 3::real]"
  have e: "row_exceeds [1000, 2]"
    by (simp add: row_exceeds_iff epsilon_def)
  have h1: "length ?f = length ?P" by simp
  have h2: "[] \<notin> set ?P" by simp
  have h3: "\<forall>row\<in>set ?P. \<forall>p\<in>set row. 0 \<le> p" by simp
  have h4: "\<exists>row\<in>set ?P. row_exceeds row" using e by simp
  show ?thesis using detect_first_and_last [OF h1 h2 h3 h4] h1 h2 e by blast
qed


text \<open>
  Claim C1. The claim asks for an explicit failure when no row exceeds the threshold.
  On the surface of a silent recording (every power is 0, so no row exceeds the
  threshold) the function returns a pair all the same: \<^verbatim>\<open>np.argmax\<close> of an all-false array
  is 0 in both scans, so the pair is the frequency at index 0 and the last frequency.
\<close>

theorem detect_silent_surface:
  "\<not> row_exceeds [0]
   \<and> detect_valid_frequency_range [0, 1 / 4, 1 / 2] [[0], [0], [0]] = Some (0, 1 / 2)"
  by (simp add: row_exceeds_iff epsilon_def detect_valid_frequency_range_def np_max_axis1_def
      list_max_def max_db_per_freq_def np_log10_def threshold_db_def np_argmax_def
      np_index_def db_gt_iff)

text \<open>
  Claim C10. Detection is pure and repeatable: a run leaves the caller's frequency array
  and power surface as they were (it only prints a line), its result is a function of
  these two arrays alone, and a second run on the state the first one left returns the
  same result.
\<close>

theorem detect_run_pure:
  "freqs_array (snd (detect_run s)) = freqs_array s
   \<and> Pxx (snd (detect_run s)) = Pxx s
   \<and> fst (detect_run (snd (detect_run s))) = fst (detect_run s)
   \<and> fst (detect_run s) = detect_valid_frequency_range (freqs_array s) (Pxx s)"
proof -
  have a: "freqs_array (snd (detect_run s)) = freqs_array s"
    by (simp add: detect_run_def split: option.split prod.split)
  have b: "Pxx (snd (detect_run s)) = Pxx s"
    by (simp add: detect_run_def split: option.split prod.split)
  have c: "\<And>t. fst (detect_run t) = detect_valid_frequency_range (freqs_array t) (Pxx t)"
    by (simp add: detect_run_def split: option.split prod.split)
  show ?thesis using a b c by simp
qed

theorem detect_run_pure_witness:
  "fst (detect_run \<lparr>freqs_array = [0, 1, 2, 3], Pxx = [[0, 1], [1000, 2], [0, 200], [5, 5]], console = []\<rparr>) = Some (1, 2)
   \<and> fst (detect_run (snd (detect_run \<lparr>freqs_array = [0, 1, 2, 3], Pxx = [[0, 1], [1000, 2], [0, 200], [5, 5]], console = []\<rparr>))) = Some (1, 2)
   \<and> console (snd (detect_run \<lparr>freqs_array = [0, 1, 2, 3], Pxx = [[0, 1], [1000, 2], [0, 200], [5, 5]], console = []\<rparr>)) = [Valid_range 1 2]"
proof -
  let ?s = "\<lparr>freqs_array = [0, 1, 2, 3], Pxx = [[0, 1], [1000, 2], [0, 200], [5, 5]], console = []\<rparr>"
  have d: "detect_valid_frequency_range [0, 1, 2, 3] [[0, 1], [1000, 2], [0, 200], [5, 5]] = Some (1, 2)"
    by (simp add: detect_valid_frequency_range_def np_max_axis1_def
      list_max_def max_db_per_freq_def np_log10_def threshold_db_def np_argmax_def
      np_index_def db_gt_iff epsilon_def)
  have r: "detect_run ?s = (Some (1, 2), ?s\<lparr>console := [Valid_range 1 2]\<rparr>)"
    using d by (simp add: detect_run_def)
  show ?thesis using detect_run_pure [of ?s] r by simp
qed

section \<open>The loader\<close>

text \<open>
  Claim C9. When the file's data have one channel, the loader returns the sample rate
  and the samples as read. When they have more than one channel (every frame holds the
  same number of channels, more than one), it returns the sample rate unchanged and the
  first entry of every frame, in order: the first channel, nothing averaged.
\<close>

theorem data_acquisition_first_channel:
  assumes "read filename = Inr (sample_rate, data)"
  shows "(data = Mono samples \<longrightarrow>
            data_acquisition read filename = Acquired sample_rate samples [])
       \<and> (data = Multi frames \<and> 1 < channels \<and> (\<forall>frame\<in>set frames. length frame = channels) \<longrightarrow>
            data_acquisition read filename
              = Acquired sample_rate (map hd frames) [Kept_one_channel])"
proof (intro conjI impI)
  assume "data = Mono samples"
  with assms show "data_acquisition read filename = Acquired sample_rate samples []"
    by (simp add: data_acquisition_def)
next
  assume m: "data = Multi frames \<and> 1 < channels \<and> (\<forall>frame\<in>set frames. length frame = channels)"
  then have ne: "[] \<notin> set frames" by auto
  have "\<And>frame. frame \<in> set frames \<Longrightarrow> frame ! 0 = hd frame"
    using ne by (metis hd_conv_nth)
  then have "map (\<lambda>frame. frame ! 0) frames = map hd frames" by simp
  then show "data_acquisition read filename
      = Acquired sample_rate (map hd frames) [Kept_one_channel]"
    using assms m ne by (simp add: data_acquisition_def)
qed

theorem data_acquisition_first_channel_witness:
  "data_acquisition (\<lambda>f. Inr (8000, Multi [[1, -1], [2, -2], [3, -3::int]])) ''a.wav''
     = Acquired 8000 [1, 2, 3] [Kept_one_channel]
   \<and> data_acquisition (\<lambda>f. Inr (8000, Mono [1, 2, 3::int])) ''a.wav'' = Acquired 8000 [1, 2, 3] []"
proof -
  let ?frames = "[[1, -1], [2, -2], [3, -3::int]]"
  let ?r2 = "\<lambda>f::string. (Inr (8000, Multi ?frames) :: exn + int \<times> int wav_data)"
  let ?r1 = "\<lambda>f::string. (Inr (8000, Mono [1, 2, 3::int]) :: exn + int \<times> int wav_data)"
  have h2: "?r2 ''a.wav'' = Inr (8000, Multi ?frames)" by simp
  have h1: "?r1 ''a.wav'' = Inr (8000, Mono [1, 2, 3])" by simp
  have w: "\<forall>frame\<in>set ?frames. length frame = 2" by simp
  have "data_acquisition ?r2 ''a.wav'' = Acquired 8000 (map hd ?frames) [Kept_one_channel]"
    using data_acquisition_first_channel [OF h2, where frames = ?frames and channels = 2] w
    by simp
  moreover have "data_acquisition ?r1 ''a.wav'' = Acquired 8000 [1, 2, 3] []"
    using data_acquisition_first_channel [OF h1, where samples = "[1, 2, 3]"] by simp
  ultimately show ?thesis by simp
qed

section \<open>Axis calibration\<close>

text \<open>
  Claim C8. Two invocations of the plotting function that differ only in the argument
  \<^verbatim>\<open>base_freq_mhz\<close> build the same frequency axis (or both build none): the axis is
  computed from the module-level \<^verbatim>\<open>freq_str\<close>.
\<close>

theorem frequency_axis_ignores_base_freq_mhz:
  "frequency_axis (plot_fft_freq_chart spectrogram freq_str NFFT noverlap sample_rate linear_array
       utc_time base_freq_mhz)
   = frequency_axis (plot_fft_freq_chart spectrogram freq_str NFFT noverlap sample_rate linear_array
       utc_time base_freq_mhz')"
  by (simp add: frequency_axis_def plot_fft_freq_chart_def plot_body_def Let_def
      split: sum.split option.split prod.split)


theorem frequency_axis_ignores_base_freq_mhz_witness:
  "frequency_axis (plot_fft_freq_chart
       (\<lambda>xs fs N V. Inr ([0, 1 / 4, 1 / 2], [2, 3], [[0, 0], [1000, 500], [0, 0]]))
       ''145800000Hz'' 4 3 1 [0::int, 0, 0, 0, 0] 0 (1458 / 10))
     = Some [14580000025 / 100000000]
   \<and> frequency_axis (plot_fft_freq_chart
       (\<lambda>xs fs N V. Inr ([0, 1 / 4, 1 / 2], [2, 3], [[0, 0], [1000, 500], [0, 0]]))
       ''145800000Hz'' 4 3 1 [0::int, 0, 0, 0, 0] 0 437)
     = Some [14580000025 / 100000000]"
proof -
  have "frequency_axis (plot_fft_freq_chart
       (\<lambda>xs fs N V. Inr ([0, 1 / 4, 1 / 2], [2, 3], [[0, 0], [1000, 500], [0, 0]]))
       ''145800000Hz'' 4 3 1 [0::int, 0, 0, 0, 0] 0 (1458 / 10))
     = Some [14580000025 / 100000000]"
    by (simp add: frequency_axis_def plot_fft_freq_chart_def plot_body_def
      detect_valid_frequency_range_def np_max_axis1_def
      list_max_def list_min_def max_db_per_freq_def np_log10_def threshold_db_def np_argmax_def
      np_index_def db_gt_iff epsilon_def select_rows_def py_float_def drop_last2_def is_digit_def
      timedelta_seconds_def round_half_even_def)
  then show ?thesis
    using frequency_axis_ignores_base_freq_mhz
      [of "\<lambda>xs fs N V. Inr ([0, 1 / 4, 1 / 2], [2, 3], [[0, 0], [1000, 500], [0, 0]])"
          "''145800000Hz''" 4 3 1 "[0::int, 0, 0, 0, 0]" 0 "1458 / 10" 437]
    by simp
qed

section \<open>Facts about the engine of the specification, the plot and the selection loop\<close>

lemma windows_count_aux:
  "V < N \<Longrightarrow> length (windows N V samples) = (if N \<le> length samples then (length samples - N) div (N - V) + 1 else 0)"
proof (induction N V samples rule: windows.induct)
  case (1 N V samples)
  show ?case
  proof (cases "N \<le> length samples")
    case False
    then show ?thesis by simp
  next
    case True
    let ?rest = "drop (N - V) samples"
    have ih: "length (windows N V ?rest) = (if N \<le> length ?rest then (length ?rest - N) div (N - V) + 1 else 0)"
      using 1 True by simp
    have step: "0 < N - V" using 1(2) by simp
    have w: "length (windows N V samples) = Suc (length (windows N V ?rest))"
      using True 1(2) by (subst windows.simps) simp
    show ?thesis
    proof (cases "N \<le> length ?rest")
      case True
      then have a: "N - V \<le> length samples - N" by simp
      have "(length samples - N) div (N - V) = Suc ((length samples - N - (N - V)) div (N - V))"
        using a step by (simp add: le_div_geq)
      moreover have "length ?rest - N = length samples - N - (N - V)" by simp
      ultimately show ?thesis using w ih True \<open>N \<le> length samples\<close> by simp
    next
      case False
      then have "length samples - N < N - V" using \<open>N \<le> length samples\<close> by simp
      then have "(length samples - N) div (N - V) = 0" by simp
      then show ?thesis using w ih False \<open>N \<le> length samples\<close> by simp
    qed
  qed
qed

declare windows.simps [simp del]

lemma filter_less_upt: "m \<le> n \<Longrightarrow> filter (\<lambda>k. k < m) [0..<n] = [0..<m]"
proof (induction n)
  case 0
  then show ?case by simp
next
  case (Suc n)
  show ?case
  proof (cases "m \<le> n")
    case True
    with Suc.IH show ?thesis by simp
  next
    case False
    with Suc.prems have "m = Suc n" by simp
    then show ?thesis by simp
  qed
qed

lemma frequencies_count:
  assumes "0 < N" "0 < sample_rate"
  shows "length (frequencies N sample_rate) = N div 2 + 1"
proof -
  have p: "\<And>k. (real k * sample_rate / real N \<le> sample_rate / 2) = (2 * k \<le> N)"
  proof -
    fix k
    have "(real k * sample_rate / real N \<le> sample_rate / 2) = (real k / real N \<le> 1 / 2)"
      using assms by (simp add: field_simps)
    also have "\<dots> = (2 * real k \<le> real N)" using assms by (simp add: field_simps)
    also have "\<dots> = (2 * k \<le> N)" by (metis of_nat_le_iff of_nat_mult of_nat_numeral)
    finally show "(real k * sample_rate / real N \<le> sample_rate / 2) = (2 * k \<le> N)" .
  qed
  have "filter (\<lambda>k. real k * sample_rate / real N \<le> sample_rate / 2) [0..<N]
      = filter (\<lambda>k. 2 * k \<le> N) [0..<N]"
    by (rule filter_cong) (simp_all only: p)
  also have "\<dots> = filter (\<lambda>k. k < N div 2 + 1) [0..<N]"
    by (rule filter_cong) auto
  also have "\<dots> = [0..<N div 2 + 1]"
    using assms(1) by (intro filter_less_upt) simp
  finally have "filter (\<lambda>k. real k * sample_rate / real N \<le> sample_rate / 2) [0..<N]
      = [0..<N div 2 + 1]" .
  then show ?thesis unfolding frequencies_def by (simp only: length_map length_upt diff_zero)
qed

lemma plot_shownD:
  assumes "plot_fft_freq_chart spectrogram freq_str NFFT noverlap sample_rate linear_array utc_time
             base_freq_mhz = Shown v"
    and "spectrogram linear_array sample_rate NFFT noverlap = Inr (freqs, rel_times, P)"
  shows "\<exists>min_freq max_freq base_freq_hz.
           detect_valid_frequency_range freqs P = Some (min_freq, max_freq)
         \<and> length P = length freqs \<and> rel_times \<noteq> []
         \<and> py_float (drop_last2 freq_str) = Some base_freq_hz
         \<and> time_array v = (utc_time + timedelta_seconds (list_min rel_times)) #
              map (\<lambda>sec. utc_time + timedelta_seconds (list_min rel_times) + timedelta_seconds sec)
                rel_times
         \<and> freqs_array_display v = map (\<lambda>f. (base_freq_hz + f) / 1000000)
              (select_rows (map (\<lambda>f. min_freq \<le> f \<and> f \<le> max_freq) freqs) freqs)
         \<and> log_spec v = map (map (\<lambda>p. times10 (np_log10 p)))
              (select_rows (map (\<lambda>f. min_freq \<le> f \<and> f \<le> max_freq) freqs) P)
         \<and> freqs_array_display v \<noteq> []"
  using assms
  by (auto simp: plot_fft_freq_chart_def plot_body_def Let_def
      split: sum.splits option.splits prod.splits if_splits)

lemma length_select_rows:
  "length display_mask = length xs \<Longrightarrow>
     length (select_rows display_mask xs) = length (filter id display_mask)"
proof -
  assume l: "length display_mask = length xs"
  have "length (filter id (map fst (zip display_mask xs))) = length (filter fst (zip display_mask xs))"
    by (simp add: filter_map comp_def)
  moreover have "map fst (zip display_mask xs) = display_mask" using l by simp
  ultimately show ?thesis by (simp add: select_rows_def)
qed

lemma set_select_rows: "set (select_rows display_mask xs) \<subseteq> set xs"
  by (auto simp: select_rows_def dest: set_zip_rightD)

lemma custom_loop_bound: "custom_loop num inputs = Inr (N, V) \<Longrightarrow> V \<le> N"
  by (induction num inputs rule: custom_loop.induct) (auto split: sum.splits if_splits)

lemma select_parameters_bound: "select_parameters num inputs = Inr (N, V) \<Longrightarrow> V \<le> N"
  by (induction num inputs rule: select_parameters.induct) (auto split: if_splits dest: custom_loop_bound)

lemmas plot_eval = plot_fft_freq_chart_def plot_body_def
      detect_valid_frequency_range_def np_max_axis1_def
      list_max_def list_min_def max_db_per_freq_def np_log10_def threshold_db_def np_argmax_def
      np_index_def db_gt_iff epsilon_def select_rows_def py_float_def drop_last2_def is_digit_def
      timedelta_seconds_def round_half_even_def

section \<open>The time axis\<close>

text \<open>
  Claim C2, as amended. Whenever the plotting function gets as far as the display, the
  first entry of its time axis is the caller's \<^verbatim>\<open>utc_time\<close> plus the smallest relative time
  of the surface (as a \<^verbatim>\<open>timedelta\<close>, rounded to microseconds), and the calibrated time of
  column \<open>i\<close>, entry \<open>i + 1\<close> of the axis, is that first entry plus the relative time of
  the column. The axis starts at \<^verbatim>\<open>utc_time\<close> itself only when the smallest relative time
  rounds to zero.
\<close>

theorem calibrated_times:
  assumes "plot_fft_freq_chart spectrogram freq_str NFFT noverlap sample_rate linear_array utc_time
             base_freq_mhz = Shown v"
    and "spectrogram linear_array sample_rate NFFT noverlap = Inr (freqs, rel_times, P)"
  shows "time_array v ! 0 = utc_time + timedelta_seconds (Min (set rel_times))
       \<and> (\<forall>i<length rel_times. time_array v ! (i + 1)
             = utc_time + timedelta_seconds (Min (set rel_times)) + timedelta_seconds (rel_times ! i))"
proof -
  from plot_shownD [OF assms(1,2)] obtain min_freq max_freq base_freq_hz where
    d: "rel_times \<noteq> []"
       "time_array v = (utc_time + timedelta_seconds (list_min rel_times)) #
              map (\<lambda>sec. utc_time + timedelta_seconds (list_min rel_times) + timedelta_seconds sec)
                rel_times"
    by blast
  show ?thesis using d by (simp add: list_min_eq_Min)
qed

text \<open>
  The theorem of claim C2 on a surface with relative times 2 s and 3 s and
  \<^verbatim>\<open>utc_time\<close> 0: the axis is 2 s, 4 s, 5 s.
\<close>

theorem calibrated_times_witness:
  "\<exists>v. plot_fft_freq_chart
         (\<lambda>xs fs N V. Inr ([0, 1 / 4, 1 / 2], [2, 3], [[0, 0], [1000, 500], [0, 0]]))
         ''145800000Hz'' 4 3 1 [0::int, 100, 0, -100, 0] 0 (1458 / 10) = Shown v
     \<and> time_array v ! 0 = 2000000 \<and> time_array v ! 1 = 4000000 \<and> time_array v ! 2 = 5000000"
proof -
  let ?sp = "\<lambda>(xs::int list) (fs::real) (N::int) (V::int).
      (Inr ([0, 1 / 4, 1 / 2], [2, 3], [[0, 0], [1000, 500], [0, 0]])
        :: exn + real list \<times> real list \<times> real list list)"
  have "\<exists>v. plot_fft_freq_chart ?sp ''145800000Hz'' 4 3 1 [0, 100, 0, -100, 0] 0 (1458 / 10)
      = Shown v"
    by (simp add: plot_eval)
  then obtain v where
    v: "plot_fft_freq_chart ?sp ''145800000Hz'' 4 3 1 [0, 100, 0, -100, 0] 0 (1458 / 10) = Shown v"
    by blast
  have s: "?sp [0, 100, 0, -100, 0] 1 4 3 = Inr ([0, 1 / 4, 1 / 2], [2, 3], [[0, 0], [1000, 500], [0, 0]])"
    by simp
  have m: "Min (set [2, 3::real]) = 2" by simp
  have t: "timedelta_seconds 2 = 2000000" "timedelta_seconds 3 = 3000000"
    by (simp_all add: timedelta_seconds_def round_half_even_def)
  from calibrated_times [OF v s]
  have c: "time_array v ! 0 = 0 + timedelta_seconds (Min (set [2, 3]))"
    "\<forall>i<length [2, 3::real]. time_array v ! (i + 1)
        = 0 + timedelta_seconds (Min (set [2, 3])) + timedelta_seconds ([2, 3] ! i)"
    by blast+
  from c(2) have "0 < length [2, 3::real] \<longrightarrow> time_array v ! (0 + 1)
        = 0 + timedelta_seconds (Min (set [2, 3])) + timedelta_seconds ([2, 3] ! 0)"
    by (rule spec)
  then have e1: "time_array v ! 1 = 4000000" using m t by simp
  from c(2) have "1 < length [2, 3::real] \<longrightarrow> time_array v ! (1 + 1)
        = 0 + timedelta_seconds (Min (set [2, 3])) + timedelta_seconds ([2, 3] ! 1)"
    by (rule spec)
  then have e2: "time_array v ! 2 = 5000000" using m t by (simp add: numeral_2_eq_2)
  note e1 e2
  moreover have "time_array v ! 0 = 2000000" using c(1) m t by simp
  ultimately show ?thesis using v by blast
qed

text \<open>
  Claim C2 as stated fails. On the surface of a silent recording of five samples
  (window 4, overlap 3, rate 1: relative times 2 s and 3 s) with \<^verbatim>\<open>utc_time\<close> 0, the
  first entry of the time axis is 2 s, not the start timestamp, and no entry of the
  axis is the start timestamp plus the 3 s of the second column.
\<close>

theorem calibrated_times_not_from_start:
  "\<exists>v. plot_fft_freq_chart
         (\<lambda>xs fs N V. Inr ([0, 1 / 4, 1 / 2], [2, 3], [[0, 0], [0, 0], [0, 0]]))
         ''145800000Hz'' 4 3 1 [0::int, 0, 0, 0, 0] 0 (1458 / 10) = Shown v
     \<and> time_array v = [2000000, 4000000, 5000000]
     \<and> time_array v ! 0 \<noteq> 0
     \<and> 0 + timedelta_seconds 2 \<noteq> time_array v ! 1
     \<and> 0 + timedelta_seconds 3 \<notin> set (time_array v)"
  by (simp add: plot_eval)

section \<open>The shape of the view\<close>

text \<open>
  Claim C5, as amended. Whenever the plotting function gets as far as the display, on a
  surface whose rows all have one power per relative time, the amplitude grid has at
  least one row, the time axis has exactly one entry more than the grid has time
  columns (the start time inserted in front), and the frequency axis has as many
  entries as the grid has rows.
\<close>

theorem time_axis_one_longer:
  assumes "plot_fft_freq_chart spectrogram freq_str NFFT noverlap sample_rate linear_array utc_time
             base_freq_mhz = Shown v"
    and "spectrogram linear_array sample_rate NFFT noverlap = Inr (freqs, rel_times, P)"
    and "\<forall>row\<in>set P. length row = length rel_times"
  shows "log_spec v \<noteq> []
       \<and> (\<forall>row\<in>set (log_spec v). length (time_array v) = length row + 1)
       \<and> length (freqs_array_display v) = length (log_spec v)"
proof -
  from plot_shownD [OF assms(1,2)] obtain min_freq max_freq base_freq_hz where
    d: "length P = length freqs"
       "time_array v = (utc_time + timedelta_seconds (list_min rel_times)) #
              map (\<lambda>sec. utc_time + timedelta_seconds (list_min rel_times) + timedelta_seconds sec)
                rel_times"
       "freqs_array_display v = map (\<lambda>f. (base_freq_hz + f) / 1000000)
              (select_rows (map (\<lambda>f. min_freq \<le> f \<and> f \<le> max_freq) freqs) freqs)"
       "log_spec v = map (map (\<lambda>p. times10 (np_log10 p)))
              (select_rows (map (\<lambda>f. min_freq \<le> f \<and> f \<le> max_freq) freqs) P)"
       "freqs_array_display v \<noteq> []"
    by blast
  let ?m = "map (\<lambda>f. min_freq \<le> f \<and> f \<le> max_freq) freqs"
  have rows: "length (freqs_array_display v) = length (log_spec v)"
    using d(1) by (simp add: d(3,4) length_select_rows)
  have ne: "log_spec v \<noteq> []" using rows d(5) by auto
  have t: "length (time_array v) = length rel_times + 1" by (simp add: d(2))
  have "\<forall>row\<in>set (log_spec v). length row = length rel_times"
    using assms(3) set_select_rows [of ?m P] by (auto simp: d(4))
  with t ne rows show ?thesis by simp
qed

text \<open>The theorem of claim C5 on a surface of three rows and two time columns.\<close>

theorem time_axis_one_longer_witness:
  "\<exists>v. plot_fft_freq_chart
         (\<lambda>xs fs N V. Inr ([0, 1 / 4, 1 / 2], [2, 3], [[0, 0], [1000, 500], [0, 0]]))
         ''145800000Hz'' 4 3 1 [0::int, 100, 0, -100, 0] 0 (1458 / 10) = Shown v
     \<and> log_spec v \<noteq> []
     \<and> (\<forall>row\<in>set (log_spec v). length (time_array v) = length row + 1)
     \<and> length (freqs_array_display v) = length (log_spec v)"
proof -
  let ?sp = "\<lambda>(xs::int list) (fs::real) (N::int) (V::int).
      (Inr ([0, 1 / 4, 1 / 2], [2, 3], [[0, 0], [1000, 500], [0, 0]])
        :: exn + real list \<times> real list \<times> real list list)"
  have "\<exists>v. plot_fft_freq_chart ?sp ''145800000Hz'' 4 3 1 [0, 100, 0, -100, 0] 0 (1458 / 10)
      = Shown v"
    by (simp add: plot_eval)
  then obtain v where
    v: "plot_fft_freq_chart ?sp ''145800000Hz'' 4 3 1 [0, 100, 0, -100, 0] 0 (1458 / 10) = Shown v"
    by blast
  have s: "?sp [0, 100, 0, -100, 0] 1 4 3 = Inr ([0, 1 / 4, 1 / 2], [2, 3], [[0, 0], [1000, 500], [0, 0]])"
    by simp
  have r: "\<forall>row\<in>set [[0, 0], [1000, 500], [0, 0::real]]. length row = length [2, 3::real]" by simp
  from time_axis_one_longer [OF v s r] v show ?thesis by blast
qed

text \<open>
  Claim C5 as stated fails. On the surface of the silent recording of five samples the
  time axis has three entries and every row of the amplitude grid has two columns.
\<close>

theorem time_axis_longer_than_grid:
  "\<exists>v. plot_fft_freq_chart
         (\<lambda>xs fs N V. Inr ([0, 1 / 4, 1 / 2], [2, 3], [[0, 0], [0, 0], [0, 0]]))
         ''145800000Hz'' 4 3 1 [0::int, 0, 0, 0, 0] 0 (1458 / 10) = Shown v
     \<and> length (time_array v) = 3
     \<and> map length (log_spec v) = [2, 2, 2]
     \<and> length (freqs_array_display v) = 3"
  by (simp add: plot_eval)

section \<open>The amplitudes\<close>

text \<open>
  Claim C3. The claim asks for finite amplitudes, zero power being floored by the
  epsilon of the detection before the logarithm. The plotting function takes
  \<^verbatim>\<open>10 * np.log10(Pxx_display)\<close> without the epsilon that
  \<^verbatim>\<open>detect_valid_frequency_range\<close> adds: on the surface of a silent recording (four
  samples, window 4, overlap 2) every amplitude of the view is \<open>-inf\<close>.
\<close>

theorem zero_power_is_not_floored:
  "\<exists>v. plot_fft_freq_chart
         (\<lambda>xs fs N V. Inr ([0, 1 / 4, 1 / 2], [2], [[0], [0], [0]]))
         ''145800000Hz'' 4 2 1 [0::int, 0, 0, 0] 0 (1458 / 10) = Shown v
     \<and> log_spec v = [[NegInf], [NegInf], [NegInf]]
     \<and> \<not> is_finite NegInf"
  by (simp add: plot_eval)

section \<open>Window length and overlap\<close>

text \<open>
  Claim C4, as amended. The plotting function checks neither the window length nor the
  overlap. When the library transform raises on them, the function returns \<open>-1\<close> for
  an IOError or a ValueError and lets any other exception through; its outcome depends
  on the two parameters only through what the transform returns for them. The one check
  in the program is in the selection loop of the caller, and every pair that loop
  yields has an overlap no greater than the window length.
\<close>

theorem plot_delegates_parameters:
  "(spectrogram linear_array sample_rate NFFT noverlap = Inl e \<longrightarrow>
      plot_fft_freq_chart spectrogram freq_str NFFT noverlap sample_rate linear_array utc_time
          base_freq_mhz
        = (if e = IOError \<or> e = ValueError then Returned_minus_one else Propagated e))
   \<and> (spectrogram linear_array sample_rate NFFT noverlap
        = spectrogram' linear_array sample_rate NFFT' noverlap' \<longrightarrow>
      plot_fft_freq_chart spectrogram freq_str NFFT noverlap sample_rate linear_array utc_time
          base_freq_mhz
        = plot_fft_freq_chart spectrogram' freq_str NFFT' noverlap' sample_rate linear_array
            utc_time base_freq_mhz)
   \<and> (select_parameters num inputs = Inr (N, V) \<longrightarrow> V \<le> N)"
  by (auto simp: plot_fft_freq_chart_def plot_body_def dest: select_parameters_bound)

text \<open>
  The theorem of claim C4 with a transform that raises ValueError when the overlap is
  not below the window length, and with the console lines \<open>0\<close>, \<open>1024\<close>, \<open>1000\<close>.
\<close>

theorem plot_delegates_parameters_witness:
  "plot_fft_freq_chart (\<lambda>xs fs N V. if V \<ge> N then Inl ValueError else Inr ([], [], []))
       ''145800000Hz'' 1024 1024 8000 [0::int, 0, 0] 0 (1458 / 10) = Returned_minus_one
   \<and> plot_fft_freq_chart (\<lambda>xs fs N V. if V \<ge> N then Inl ValueError else Inr ([], [], []))
       ''145800000Hz'' 1024 1024 8000 [0::int, 0, 0] 0 (1458 / 10)
     = plot_fft_freq_chart (\<lambda>xs fs N V. Inl ValueError)
       ''145800000Hz'' 5 2 8000 [0::int, 0, 0] 0 (1458 / 10)
   \<and> select_parameters
        (\<lambda>s. if s = ''1024'' then Inr 1024 else if s = ''1000'' then Inr 1000 else Inl ValueError)
        [''0'', ''1024'', ''1000''] = Inr (1024, 1000)
   \<and> (1000::int) \<le> 1024"
proof -
  let ?sp = "\<lambda>(xs::int list) (fs::real) (N::int) (V::int).
      if V \<ge> N then Inl ValueError
      else (Inr ([], [], []) :: exn + real list \<times> real list \<times> real list list)"
  let ?sp' = "\<lambda>(xs::int list) (fs::real) (N::int) (V::int).
      (Inl ValueError :: exn + real list \<times> real list \<times> real list list)"
  let ?num = "\<lambda>s. if s = ''1024'' then Inr 1024 else if s = ''1000'' then Inr (1000::int)
      else (Inl ValueError :: exn + int)"
  have h1: "?sp [0, 0, 0] 8000 1024 1024 = Inl ValueError" by simp
  have h2: "?sp [0, 0, 0] 8000 1024 1024 = ?sp' [0, 0, 0] 8000 5 2" by simp
  have h3: "select_parameters ?num [''0'', ''1024'', ''1000''] = Inr (1024, 1000)" by simp
  note inst = plot_delegates_parameters [where spectrogram = ?sp and spectrogram' = ?sp'
        and linear_array = "[0, 0, 0]" and sample_rate = 8000 and NFFT = 1024 and noverlap = 1024
        and NFFT' = 5 and noverlap' = 2 and e = ValueError and num = ?num
        and inputs = "[''0'', ''1024'', ''1000'']" and N = 1024 and V = 1000
        and freq_str = "''145800000Hz''" and utc_time = 0 and base_freq_mhz = "1458 / 10"]
  have p1: "plot_fft_freq_chart ?sp ''145800000Hz'' 1024 1024 8000 [0, 0, 0] 0 (1458 / 10)
      = Returned_minus_one"
    using inst h1 by simp
  have p2: "plot_fft_freq_chart ?sp ''145800000Hz'' 1024 1024 8000 [0, 0, 0] 0 (1458 / 10)
      = plot_fft_freq_chart ?sp' ''145800000Hz'' 5 2 8000 [0, 0, 0] 0 (1458 / 10)"
    using inst h2 by blast
  have p3: "(1000::int) \<le> 1024" using inst h3 by blast
  from p1 p2 h3 p3 show ?thesis by (intro conjI)
qed

text \<open>
  Claim C4 as stated fails. Window length 8 and overlap 2 on a silent recording of four
  samples violate \<open>N \<le> len(samples)\<close>; the plotting function does not fail, it displays
  the surface the transform returns for them (the library shortens the window to the
  four samples: three frequencies, one time column, no power).
\<close>

theorem violating_parameters_plotted:
  "\<not> ((0::int) \<le> 2 \<and> (2::int) < 8 \<and> (8::int) \<le> int (length [0::int, 0, 0, 0]))
   \<and> plot_fft_freq_chart
         (\<lambda>xs fs N V. Inr ([0, 1 / 4, 1 / 2], [2], [[0], [0], [0]]))
         ''145800000Hz'' 8 2 1 [0::int, 0, 0, 0] 0 (1458 / 10)
       = Shown \<lparr>time_array = [2000000, 4000000],
                freqs_array_display = [1458 / 10, 14580000025 / 100000000, 1458000005 / 10000000],
                log_spec = [[NegInf], [NegInf], [NegInf]],
                extent = (2000000, 4000000, 1458 / 10, 1458000005 / 10000000),
                xlabel = 2000000, ylabel = 1458 / 10\<rparr>"
  by (simp add: plot_eval)

section \<open>The axis lengths of the engine\<close>

text \<open>
  Claim C7. For a window length \<open>N\<close>, an overlap \<open>V < N\<close> and at least \<open>N\<close> samples, the
  engine of the specification yields \<open>N div 2 + 1\<close> frequencies and
  \<open>(len(samples) - N) div (N - V) + 1\<close> windows, one time column each: with the largest
  overlap \<open>V = N - 1\<close> that is \<open>len(samples) - N + 1\<close>, and with \<open>N = len(samples)\<close> it is
  one.
\<close>

theorem engine_axis_lengths:
  assumes "V < N" "N \<le> length samples" "0 < sample_rate"
  shows "length (frequencies N sample_rate) = N div 2 + 1
       \<and> length (windows N V samples) = (length samples - N) div (N - V) + 1
       \<and> (V = N - 1 \<longrightarrow> length (windows N V samples) = length samples - N + 1)
       \<and> (N = length samples \<longrightarrow> length (windows N V samples) = 1)"
proof -
  have n: "0 < N" using assms(1) by simp
  have f: "length (frequencies N sample_rate) = N div 2 + 1"
    using n assms(3) by (rule frequencies_count)
  have "length (windows N V samples)
      = (if N \<le> length samples then (length samples - N) div (N - V) + 1 else 0)"
    using assms(1) by (rule windows_count_aux)
  then have w: "length (windows N V samples) = (length samples - N) div (N - V) + 1"
    using assms(2) by (simp only: if_True)
  have b1: "V = N - 1 \<longrightarrow> length (windows N V samples) = length samples - N + 1"
  proof
    assume "V = N - 1"
    then have "N - V = 1" using n by arith
    then show "length (windows N V samples) = length samples - N + 1"
      by (simp only: w div_by_1)
  qed
  have b2: "N = length samples \<longrightarrow> length (windows N V samples) = 1"
  proof
    assume "N = length samples"
    then have "length samples - N = 0" by simp
    then show "length (windows N V samples) = 1" by (simp only: w div_0 add_0)
  qed
  from f w b1 b2 show ?thesis by blast
qed

text \<open>
  The theorem of claim C7 on the scenario of the specification (80000 samples at
  8000 Hz, window 1024, overlap 512), with the largest overlap, and with a single window.
\<close>

theorem engine_axis_lengths_witness:
  "length (frequencies 1024 8000) = 513
   \<and> length (windows 1024 512 (replicate 80000 (0::real))) = 155
   \<and> length (windows 1024 1023 (replicate 80000 (0::real))) = 78977
   \<and> length (windows 80000 512 (replicate 80000 (0::real))) = 1"
proof -
  let ?samples = "replicate 80000 (0::real)"
  have l: "length ?samples = 80000" by (rule length_replicate)
  have r: "(0::real) < 8000" by simp
  have a1: "(512::nat) < 1024" and a2: "(1024::nat) \<le> length ?samples"
    by (simp_all only: l)
  have b1: "(1023::nat) < 1024" by simp
  have c1: "(512::nat) < 80000" and c2: "(80000::nat) \<le> length ?samples"
    by (simp_all only: l)
  have d: "(80000 - 1024) div (1024 - 512) + 1 = (155::nat)"
    "(80000 - 1024) div (1024 - 1023) + 1 = (78977::nat)"
    "1024 div 2 + 1 = (513::nat)"
    "(80000 - 80000) div (80000 - 512) + 1 = (1::nat)"
    by simp_all
  from engine_axis_lengths [OF a1 a2 r]
  have a: "length (frequencies 1024 8000) = 513 \<and> length (windows 1024 512 ?samples) = 155"
    by (simp only: l d)
  from engine_axis_lengths [OF b1 a2 r]
  have b: "length (windows 1024 1023 ?samples) = 78977"
    by (simp only: l d)
  from engine_axis_lengths [OF c1 c2 r]
  have c: "length (windows 80000 512 ?samples) = 1"
    by (simp only: l d)
  from a b c show ?thesis by blast
qed

end
